theory Spec2Isabelle
  imports Complex_Main
begin

section \<open>The value type \<open>FTYPE\<close>\<close>

text \<open>
  \<open>Core.h\<close> computes in \<open>FTYPE\<close>, which is \<open>double\<close>. A value is modelled as a real
  number or one of the three special values of IEEE 754: the source reaches them by
  dividing by a zero-length envelope segment or a zero frequency, and by overflow. A sum,
  product or quotient whose magnitude is \<open>2^1024 - 2^970\<close> or more, the least that
  binary64 rounds to infinity, is the infinity of its sign. Below that bound a result is
  kept as the exact real: its rounding to 53 bits is not modelled. The theorems below
  about the envelope, the oscillator, the instruments and the sequencer are therefore
  stated so that they do not depend on how a result is rounded, and the examples use
  numbers with which binary64 computes exactly; the theorem about the scale is about
  exact arithmetic. Zero carries no sign
  (every zero divisor in the source is the literal \<open>0.0\<close>, so a division by it takes the
  sign of the dividend). Comparisons with \<open>NaN\<close> are false, as in C++.
\<close>

datatype FTYPE = Fin real | PInf | MInf | NaN

text \<open>A finite result of an operation, or the infinity it overflows to.\<close>

definition fovf :: "real \<Rightarrow> FTYPE" where
  "fovf x =
     (if 2 ^ 1024 - 2 ^ 970 \<le> x then PInf
      else if x \<le> - (2 ^ 1024 - 2 ^ 970) then MInf
      else Fin x)"

fun fneg :: "FTYPE \<Rightarrow> FTYPE" where
  "fneg (Fin a) = Fin (- a)"
| "fneg PInf = MInf"
| "fneg MInf = PInf"
| "fneg NaN = NaN"

fun fadd :: "FTYPE \<Rightarrow> FTYPE \<Rightarrow> FTYPE" where
  "fadd (Fin a) (Fin b) = fovf (a + b)"
| "fadd NaN y = NaN"
| "fadd x NaN = NaN"
| "fadd PInf MInf = NaN"
| "fadd MInf PInf = NaN"
| "fadd PInf y = PInf"
| "fadd MInf y = MInf"
| "fadd x PInf = PInf"
| "fadd x MInf = MInf"

definition fsub :: "FTYPE \<Rightarrow> FTYPE \<Rightarrow> FTYPE" where
  "fsub x y = fadd x (fneg y)"

text \<open>The sign of an infinite product or quotient: \<open>True\<close> is positive.\<close>

definition finf :: "bool \<Rightarrow> FTYPE" where
  "finf positive = (if positive then PInf else MInf)"

fun fmul :: "FTYPE \<Rightarrow> FTYPE \<Rightarrow> FTYPE" where
  "fmul (Fin a) (Fin b) = fovf (a * b)"
| "fmul NaN y = NaN"
| "fmul x NaN = NaN"
| "fmul PInf (Fin b) = (if b = 0 then NaN else finf (0 < b))"
| "fmul MInf (Fin b) = (if b = 0 then NaN else finf (b < 0))"
| "fmul (Fin a) PInf = (if a = 0 then NaN else finf (0 < a))"
| "fmul (Fin a) MInf = (if a = 0 then NaN else finf (a < 0))"
| "fmul PInf PInf = PInf"
| "fmul PInf MInf = MInf"
| "fmul MInf PInf = MInf"
| "fmul MInf MInf = PInf"

fun fdiv :: "FTYPE \<Rightarrow> FTYPE \<Rightarrow> FTYPE" where
  "fdiv (Fin a) (Fin b) =
     (if b \<noteq> 0 then fovf (a / b) else if a = 0 then NaN else finf (0 < a))"
| "fdiv NaN y = NaN"
| "fdiv x NaN = NaN"
| "fdiv (Fin a) PInf = Fin 0"
| "fdiv (Fin a) MInf = Fin 0"
| "fdiv PInf (Fin b) = finf (0 \<le> b)"
| "fdiv MInf (Fin b) = finf (b < 0)"
| "fdiv PInf PInf = NaN"
| "fdiv PInf MInf = NaN"
| "fdiv MInf PInf = NaN"
| "fdiv MInf MInf = NaN"

fun fle :: "FTYPE \<Rightarrow> FTYPE \<Rightarrow> bool" where
  "fle (Fin a) (Fin b) = (a \<le> b)"
| "fle NaN y = False"
| "fle x NaN = False"
| "fle MInf y = True"
| "fle x PInf = True"
| "fle PInf y = False"
| "fle x MInf = False"

fun flt :: "FTYPE \<Rightarrow> FTYPE \<Rightarrow> bool" where
  "flt (Fin a) (Fin b) = (a < b)"
| "flt NaN y = False"
| "flt x NaN = False"
| "flt PInf y = False"
| "flt x MInf = False"
| "flt MInf y = True"
| "flt x PInf = True"

definition fge :: "FTYPE \<Rightarrow> FTYPE \<Rightarrow> bool" where
  "fge x y = fle y x"

definition fgt :: "FTYPE \<Rightarrow> FTYPE \<Rightarrow> bool" where
  "fgt x y = flt y x"

fun fsin :: "FTYPE \<Rightarrow> FTYPE" where
  "fsin (Fin a) = Fin (sin a)"
| "fsin x = NaN"

fun fasin :: "FTYPE \<Rightarrow> FTYPE" where
  "fasin (Fin a) = (if - 1 \<le> a \<and> a \<le> 1 then Fin (arcsin a) else NaN)"
| "fasin x = NaN"

text \<open>
  The C library's \<open>fmod\<close>: the remainder \<open>x - n * y\<close> where \<open>n\<close> is the quotient
  \<open>x / y\<close> rounded towards zero, so the result has the sign of \<open>x\<close>.
\<close>

definition fmod_real :: "real \<Rightarrow> real \<Rightarrow> real" where
  "fmod_real x y =
     x - of_int (if 0 \<le> x / y then \<lfloor>x / y\<rfloor> else \<lceil>x / y\<rceil>) * y"

fun ffmod :: "FTYPE \<Rightarrow> FTYPE \<Rightarrow> FTYPE" where
  "ffmod (Fin a) (Fin b) = (if b = 0 then NaN else Fin (fmod_real a b))"
| "ffmod NaN y = NaN"
| "ffmod x NaN = NaN"
| "ffmod PInf y = NaN"
| "ffmod MInf y = NaN"
| "ffmod (Fin a) PInf = Fin a"
| "ffmod (Fin a) MInf = Fin a"

section \<open>Utilities\<close>

text \<open>
  Modelled from the spec: the constant \<open>PI\<close> is declared outside \<open>Core.h\<close> (the header
  \<open>Noise.h\<close> it includes is not among the sources); the spec writes it as \<open>\<pi>\<close>.
\<close>

definition PI :: real where
  "PI = pi"

text \<open>Converts frequency (Hz) to angular velocity.\<close>

definition w :: "FTYPE \<Rightarrow> FTYPE" where
  "w dHertz = fmul (fmul dHertz (Fin 2.0)) (Fin PI)"

text \<open>
  A basic note. The pointer \<open>instrument_base *channel\<close> is an address, \<open>None\<close> for
  \<open>nullptr\<close>. The semitone \<open>id\<close> is an \<open>int\<close> of the source, taken here without its
  32-bit bound.
\<close>

record "note" =
  id_note :: int
  on :: FTYPE
  off :: FTYPE
  active :: bool
  channel :: "nat option"

text \<open>The constructor \<open>note()\<close>.\<close>

definition "note" :: "note" where
  "note = \<lparr> id_note = 0, on = Fin 0.0, off = Fin 0.0, active = False, channel = None \<rparr>"

section \<open>Oscillator\<close>

datatype OSC_TYPE = OSC_SINE | OSC_SQUARE | OSC_TRIANGLE | OSC_SAW_ANA | OSC_SAW_DIG | OSC_NOISE

text \<open>
  The loop of the analogue saw, \<open>for (FTYPE n = 1.0; n < dCustom; n++)\<close>. The bound
  \<open>dCustom\<close> is a finite number here (the callers pass the literals \<open>50.0\<close> and \<open>100\<close>),
  so the loop ends.
\<close>

function saw_ana :: "real \<Rightarrow> real \<Rightarrow> FTYPE \<Rightarrow> FTYPE \<Rightarrow> FTYPE" where
  "saw_ana n dCustom dFreq dOutput =
     (if n < dCustom
      then saw_ana (n + 1) dCustom dFreq
             (fadd dOutput (fdiv (fsin (fmul (Fin n) dFreq)) (Fin n)))
      else dOutput)"
  by pat_completeness auto
termination
proof (relation "measure (\<lambda>(n, dCustom, dFreq, dOutput). nat \<lceil>dCustom - n\<rceil>)")
  show "wf (measure (\<lambda>(n, dCustom, dFreq, dOutput). nat \<lceil>dCustom - n\<rceil>))"
    by simp
next
  fix n dCustom :: real and dFreq dOutput :: FTYPE
  assume "n < dCustom"
  then have "0 < \<lceil>dCustom - n\<rceil>" and "\<lceil>dCustom - (n + 1)\<rceil> = \<lceil>dCustom - n\<rceil> - 1"
    by (simp, linarith)
  then show "((n + 1, dCustom, dFreq, fadd dOutput (fdiv (fsin (fmul (Fin n) dFreq)) (Fin n))),
              (n, dCustom, dFreq, dOutput))
             \<in> measure (\<lambda>(n, dCustom, dFreq, dOutput). nat \<lceil>dCustom - n\<rceil>)"
    by simp
qed

text \<open>
  \<open>synth::osc\<close>. The noise kind calls the C library's \<open>rand()\<close>; its draw is the last
  argument, \<open>dRand\<close>, the value of \<open>(FTYPE)rand() / (FTYPE)RAND_MAX\<close> for the call. The
  \<open>default\<close> branch of the \<open>switch\<close> has no counterpart: \<open>OSC_TYPE\<close>, the enum
  \<open>TYPE\<close> of the source, has the six kinds only.
\<close>

definition osc ::
  "FTYPE \<Rightarrow> FTYPE \<Rightarrow> OSC_TYPE \<Rightarrow> FTYPE \<Rightarrow> FTYPE \<Rightarrow> real \<Rightarrow> FTYPE \<Rightarrow> FTYPE" where
  "osc dTime dHertz t dLFOHertz dLFOAmplitude dCustom dRand =
     (let dFreq = fadd (fmul (w dHertz) dTime)
                    (fmul (fmul dLFOAmplitude dHertz) (fsin (fmul (w dLFOHertz) dTime)))
      in case t of
           OSC_SINE \<Rightarrow> fsin dFreq
         | OSC_SQUARE \<Rightarrow> (if fgt (fsin dFreq) (Fin 0) then Fin 1.0 else Fin (- 1.0))
         | OSC_TRIANGLE \<Rightarrow> fmul (fasin (fsin dFreq)) (fdiv (Fin 2.0) (Fin PI))
         | OSC_SAW_ANA \<Rightarrow> fmul (saw_ana 1.0 dCustom dFreq (Fin 0.0)) (fdiv (Fin 2.0) (Fin PI))
         | OSC_SAW_DIG \<Rightarrow>
             fmul (fdiv (Fin 2.0) (Fin PI))
               (fsub (fmul (fmul dHertz (Fin PI)) (ffmod dTime (fdiv (Fin 1.0) dHertz)))
                     (fdiv (Fin PI) (Fin 2.0)))
         | OSC_NOISE \<Rightarrow> fsub (fmul (Fin 2.0) dRand) (Fin 1.0))"

text \<open>
  The digital saw in the spec's words, a closed-form ramp using the frequency and the
  time modulo \<open>1/frequency\<close>, with the remainder of the reals, which lies from 0 up
  to \<open>1/f\<close>; to compare \<open>osc\<close> with.
\<close>

definition saw_dig_spec :: "real \<Rightarrow> real \<Rightarrow> real" where
  "saw_dig_spec t f =
     (2 / pi) * (f * pi * (t - of_int \<lfloor>t / (1 / f)\<rfloor> * (1 / f)) - pi / 2)"

section \<open>Scale to frequency conversion\<close>

definition SCALE_DEFAULT :: int where
  "SCALE_DEFAULT = 0"

text \<open>
  \<open>synth::scale\<close>: both labels of the \<open>switch\<close>, \<open>SCALE_DEFAULT\<close> and \<open>default\<close>, share
  the one body. The base is the decimal literal of the source and the exponent an
  integer, negative for the notes below the reference.
\<close>

definition scale :: "int \<Rightarrow> int \<Rightarrow> FTYPE" where
  "scale nNoteID nScaleID =
     Fin (8 * 1.0594630943592952645618252949463 powi nNoteID)"


section \<open>Envelopes\<close>

record envelope_adsr =
  dAttackTime :: FTYPE
  dDecayTime :: FTYPE
  dSustainAmplitude :: FTYPE
  dReleaseTime :: FTYPE
  dStartAmplitude :: FTYPE

text \<open>The default constructor \<open>envelope_adsr()\<close>.\<close>

definition envelope_adsr :: envelope_adsr where
  "envelope_adsr =
     \<lparr> dAttackTime = Fin 0.1, dDecayTime = Fin 0.1, dSustainAmplitude = Fin 1.0,
       dReleaseTime = Fin 0.2, dStartAmplitude = Fin 1.0 \<rparr>"

text \<open>
  \<open>envelope_adsr::amplitude\<close>. The three \<open>if\<close> statements of each branch run one after
  the other, each overwriting the value left by the one before; the source writes them
  out twice, once for the amplitude of a sounding note and once for the amplitude the
  note had reached when it was released.
\<close>

definition amplitude :: "envelope_adsr \<Rightarrow> FTYPE \<Rightarrow> FTYPE \<Rightarrow> FTYPE \<Rightarrow> FTYPE" where
  "amplitude e dTime dTimeOn dTimeOff =
     (let dAmplitude =
        (if fgt dTimeOn dTimeOff then
           (let dLifeTime = fsub dTime dTimeOn;
                a1 = (if fle dLifeTime (dAttackTime e)
                      then fmul (fdiv dLifeTime (dAttackTime e)) (dStartAmplitude e)
                      else Fin 0.0);
                a2 = (if fgt dLifeTime (dAttackTime e)
                         \<and> fle dLifeTime (fadd (dAttackTime e) (dDecayTime e))
                      then fadd (fmul (fdiv (fsub dLifeTime (dAttackTime e)) (dDecayTime e))
                                  (fsub (dSustainAmplitude e) (dStartAmplitude e)))
                             (dStartAmplitude e)
                      else a1);
                a3 = (if fgt dLifeTime (fadd (dAttackTime e) (dDecayTime e))
                      then dSustainAmplitude e
                      else a2)
            in a3)
         else
           (let dLifeTime = fsub dTimeOff dTimeOn;
                r1 = (if fle dLifeTime (dAttackTime e)
                      then fmul (fdiv dLifeTime (dAttackTime e)) (dStartAmplitude e)
                      else Fin 0.0);
                r2 = (if fgt dLifeTime (dAttackTime e)
                         \<and> fle dLifeTime (fadd (dAttackTime e) (dDecayTime e))
                      then fadd (fmul (fdiv (fsub dLifeTime (dAttackTime e)) (dDecayTime e))
                                  (fsub (dSustainAmplitude e) (dStartAmplitude e)))
                             (dStartAmplitude e)
                      else r1);
                dReleaseAmplitude = (if fgt dLifeTime (fadd (dAttackTime e) (dDecayTime e))
                      then dSustainAmplitude e
                      else r2)
            in fadd (fmul (fdiv (fsub dTime dTimeOff) (dReleaseTime e))
                          (fsub (Fin 0.0) dReleaseAmplitude))
                    dReleaseAmplitude))
      in if fle dAmplitude (Fin 0.01) then Fin 0.0 else dAmplitude)"

text \<open>
  \<open>synth::env\<close> forwards to the envelope's virtual \<open>amplitude\<close>; it is \<open>synth_env\<close> here,
  the name \<open>env\<close> being the instrument's field.
\<close>

definition synth_env :: "FTYPE \<Rightarrow> envelope_adsr \<Rightarrow> FTYPE \<Rightarrow> FTYPE \<Rightarrow> FTYPE" where
  "synth_env dTime e dTimeOn dTimeOff = amplitude e dTime dTimeOn dTimeOff"




section \<open>Instruments\<close>

text \<open>
  \<open>instrument_base\<close> and the six structs derived from it. Each struct is its constructor,
  a value of the record, and its override of the virtual \<open>sound\<close>, a function of the
  object \<open>this\<close>. The reference parameter \<open>bNoteFinished\<close> is passed in and returned
  beside the sample. \<open>dRand\<close> is the draw of \<open>rand()\<close> that the noise oscillator of the
  call consumes (no \<open>sound\<close> has more than one), see \<open>osc\<close>.
\<close>

record instrument_base =
  dVolume :: FTYPE
  env :: envelope_adsr
  fMaxLifeTime :: FTYPE
  name :: string

definition instrument_bell :: instrument_base where
  "instrument_bell =
     \<lparr> dVolume = Fin 1.0,
       env = envelope_adsr \<lparr> dAttackTime := Fin 0.01, dDecayTime := Fin 1.0,
               dSustainAmplitude := Fin 0.0, dReleaseTime := Fin 1.0 \<rparr>,
       fMaxLifeTime = Fin 3.0, name = ''Bell'' \<rparr>"

definition instrument_bell_sound ::
  "instrument_base \<Rightarrow> FTYPE \<Rightarrow> note \<Rightarrow> bool \<Rightarrow> FTYPE \<Rightarrow> FTYPE \<times> bool" where
  "instrument_bell_sound this dTime n bNoteFinished dRand =
     (let dAmplitude = synth_env dTime (env this) (on n) (off n);
          bNoteFinished = (if fle dAmplitude (Fin 0.0) then True else bNoteFinished);
          dSound =
            fadd (fadd (fmul (Fin 1.00)
                    (osc (fsub dTime (on n)) (scale (id_note n + 12) SCALE_DEFAULT)
                       OSC_SINE (Fin 5.0) (Fin 0.001) 50.0 dRand))
             (fmul (Fin 0.50)
                    (osc (fsub dTime (on n)) (scale (id_note n + 24) SCALE_DEFAULT)
                       OSC_SINE (Fin 0.0) (Fin 0.0) 50.0 dRand)))
             (fmul (Fin 0.25)
                    (osc (fsub dTime (on n)) (scale (id_note n + 36) SCALE_DEFAULT)
                       OSC_SINE (Fin 0.0) (Fin 0.0) 50.0 dRand))
      in (fmul (fmul dAmplitude dSound) (dVolume this), bNoteFinished))"

definition instrument_bell8 :: instrument_base where
  "instrument_bell8 =
     \<lparr> dVolume = Fin 1.0,
       env = envelope_adsr \<lparr> dAttackTime := Fin 0.01, dDecayTime := Fin 0.5,
               dSustainAmplitude := Fin 0.8, dReleaseTime := Fin 1.0 \<rparr>,
       fMaxLifeTime = Fin 3.0, name = ''8-Bit Bell'' \<rparr>"

definition instrument_bell8_sound ::
  "instrument_base \<Rightarrow> FTYPE \<Rightarrow> note \<Rightarrow> bool \<Rightarrow> FTYPE \<Rightarrow> FTYPE \<times> bool" where
  "instrument_bell8_sound this dTime n bNoteFinished dRand =
     (let dAmplitude = synth_env dTime (env this) (on n) (off n);
          bNoteFinished = (if fle dAmplitude (Fin 0.0) then True else bNoteFinished);
          dSound =
            fadd (fadd (fmul (Fin 1.00)
                    (osc (fsub dTime (on n)) (scale (id_note n) SCALE_DEFAULT)
                       OSC_SQUARE (Fin 5.0) (Fin 0.001) 50.0 dRand))
             (fmul (Fin 0.50)
                    (osc (fsub dTime (on n)) (scale (id_note n + 12) SCALE_DEFAULT)
                       OSC_SINE (Fin 0.0) (Fin 0.0) 50.0 dRand)))
             (fmul (Fin 0.25)
                    (osc (fsub dTime (on n)) (scale (id_note n + 24) SCALE_DEFAULT)
                       OSC_SINE (Fin 0.0) (Fin 0.0) 50.0 dRand))
      in (fmul (fmul dAmplitude dSound) (dVolume this), bNoteFinished))"


definition instrument_harmonica_sound ::
  "instrument_base \<Rightarrow> FTYPE \<Rightarrow> note \<Rightarrow> bool \<Rightarrow> FTYPE \<Rightarrow> FTYPE \<times> bool" where
  "instrument_harmonica_sound this dTime n bNoteFinished dRand =
     (let dAmplitude = synth_env dTime (env this) (on n) (off n);
          bNoteFinished = (if fle dAmplitude (Fin 0.0) then True else bNoteFinished);
          dSound =
            fadd (fadd (fadd (fmul (Fin 1.0)
                    (osc (fsub (on n) dTime) (scale (id_note n - 12) SCALE_DEFAULT)
                       OSC_SAW_ANA (Fin 5.0) (Fin 0.001) 100 dRand))
             (fmul (Fin 1.00)
                    (osc (fsub dTime (on n)) (scale (id_note n) SCALE_DEFAULT)
                       OSC_SQUARE (Fin 5.0) (Fin 0.001) 50.0 dRand)))
             (fmul (Fin 0.50)
                    (osc (fsub dTime (on n)) (scale (id_note n + 12) SCALE_DEFAULT)
                       OSC_SQUARE (Fin 0.0) (Fin 0.0) 50.0 dRand)))
             (fmul (Fin 0.05)
                    (osc (fsub dTime (on n)) (scale (id_note n + 24) SCALE_DEFAULT)
                       OSC_NOISE (Fin 0.0) (Fin 0.0) 50.0 dRand))
      in (fmul (fmul dAmplitude dSound) (dVolume this), bNoteFinished))"

definition instrument_drumkick :: instrument_base where
  "instrument_drumkick =
     \<lparr> dVolume = Fin 1.0,
       env = envelope_adsr \<lparr> dAttackTime := Fin 0.01, dDecayTime := Fin 0.15,
               dSustainAmplitude := Fin 0.0, dReleaseTime := Fin 0.0 \<rparr>,
       fMaxLifeTime = Fin 1.5, name = ''Drum Kick'' \<rparr>"

definition instrument_drumkick_sound ::
  "instrument_base \<Rightarrow> FTYPE \<Rightarrow> note \<Rightarrow> bool \<Rightarrow> FTYPE \<Rightarrow> FTYPE \<times> bool" where
  "instrument_drumkick_sound this dTime n bNoteFinished dRand =
     (let dAmplitude = synth_env dTime (env this) (on n) (off n);
          bNoteFinished =
            (if fgt (fMaxLifeTime this) (Fin 0.0)
                \<and> fge (fsub dTime (on n)) (fMaxLifeTime this)
             then True else bNoteFinished);
          dSound =
            fadd (fmul (Fin 0.99)
                    (osc (fsub dTime (on n)) (scale (id_note n - 36) SCALE_DEFAULT)
                       OSC_SINE (Fin 1.0) (Fin 1.0) 50.0 dRand))
             (fmul (Fin 0.01)
                    (osc (fsub dTime (on n)) (Fin 0)
                       OSC_NOISE (Fin 0.0) (Fin 0.0) 50.0 dRand))
      in (fmul (fmul dAmplitude dSound) (dVolume this), bNoteFinished))"

definition instrument_drumsnare :: instrument_base where
  "instrument_drumsnare =
     \<lparr> dVolume = Fin 1.0,
       env = envelope_adsr \<lparr> dAttackTime := Fin 0.0, dDecayTime := Fin 0.2,
               dSustainAmplitude := Fin 0.0, dReleaseTime := Fin 0.0 \<rparr>,
       fMaxLifeTime = Fin 1.0, name = ''Drum Snare'' \<rparr>"

definition instrument_drumsnare_sound ::
  "instrument_base \<Rightarrow> FTYPE \<Rightarrow> note \<Rightarrow> bool \<Rightarrow> FTYPE \<Rightarrow> FTYPE \<times> bool" where
  "instrument_drumsnare_sound this dTime n bNoteFinished dRand =
     (let dAmplitude = synth_env dTime (env this) (on n) (off n);
          bNoteFinished =
            (if fgt (fMaxLifeTime this) (Fin 0.0)
                \<and> fge (fsub dTime (on n)) (fMaxLifeTime this)
             then True else bNoteFinished);
          dSound =
            fadd (fmul (Fin 0.5)
                    (osc (fsub dTime (on n)) (scale (id_note n - 24) SCALE_DEFAULT)
                       OSC_SINE (Fin 0.5) (Fin 1.0) 50.0 dRand))
             (fmul (Fin 0.5)
                    (osc (fsub dTime (on n)) (Fin 0)
                       OSC_NOISE (Fin 0.0) (Fin 0.0) 50.0 dRand))
      in (fmul (fmul dAmplitude dSound) (dVolume this), bNoteFinished))"

definition instrument_drumhihat :: instrument_base where
  "instrument_drumhihat =
     \<lparr> dVolume = Fin 0.5,
       env = envelope_adsr \<lparr> dAttackTime := Fin 0.01, dDecayTime := Fin 0.05,
               dSustainAmplitude := Fin 0.0, dReleaseTime := Fin 0.0 \<rparr>,
       fMaxLifeTime = Fin 1.0, name = ''Drum HiHat'' \<rparr>"

definition instrument_drumhihat_sound ::
  "instrument_base \<Rightarrow> FTYPE \<Rightarrow> note \<Rightarrow> bool \<Rightarrow> FTYPE \<Rightarrow> FTYPE \<times> bool" where
  "instrument_drumhihat_sound this dTime n bNoteFinished dRand =
     (let dAmplitude = synth_env dTime (env this) (on n) (off n);
          bNoteFinished =
            (if fgt (fMaxLifeTime this) (Fin 0.0)
                \<and> fge (fsub dTime (on n)) (fMaxLifeTime this)
             then True else bNoteFinished);
          dSound =
            fadd (fmul (Fin 0.1)
                    (osc (fsub dTime (on n)) (scale (id_note n - 12) SCALE_DEFAULT)
                       OSC_SQUARE (Fin 1.5) (Fin 1) 50.0 dRand))
             (fmul (Fin 0.9)
                    (osc (fsub dTime (on n)) (Fin 0)
                       OSC_NOISE (Fin 0.0) (Fin 0.0) 50.0 dRand))
      in (fmul (fmul dAmplitude dSound) (dVolume this), bNoteFinished))"

section \<open>Sequencer\<close>

text \<open>
  Reading a \<open>wstring\<close> or a \<open>vector\<close> with \<open>operator[]\<close> checks no bound. A read
  outside the container is undefined behaviour in C++, and so is the increment of an
  \<open>int\<close> that holds \<open>INT_MAX\<close>; the model stops there with an error value.
\<close>

datatype error = OutOfBounds | IntOverflow

definition INT_MAX :: int where
  "INT_MAX = 2147483647"

text \<open>
  \<open>wstring::operator[]\<close>: the character at \<open>pos\<close> when \<open>pos < size()\<close>, the null
  character when \<open>pos = size()\<close>, undefined beyond. The \<open>int\<close> index converts to the
  unsigned \<open>size_t\<close>, so a negative one lies beyond every size. The wide characters of a
  pattern are modelled as \<open>char\<close>.
\<close>

definition wstring_at :: "string \<Rightarrow> int \<Rightarrow> error + char" where
  "wstring_at str pos =
     (if 0 \<le> pos \<and> pos < int (length str) then Inr (str ! nat pos)
      else if pos = int (length str) then Inr (CHR 0x00)
      else Inl OutOfBounds)"

definition vector_at :: "'a list \<Rightarrow> nat \<Rightarrow> error + 'a" where
  "vector_at vec pos = (if pos < length vec then Inr (vec ! pos) else Inl OutOfBounds)"

record channel =
  instrument :: "nat option"
  sBeat :: string

record sequencer =
  nBeats :: int
  nSubBeats :: int
  fTempo :: FTYPE
  fBeatTime :: FTYPE
  fAccumulate :: FTYPE
  nCurrentBeat :: int
  nTotalBeats :: int
  vecChannel :: "channel list"
  vecNotes :: "note list"

text \<open>
  The constructor \<open>sequencer(tempo, beats, subbeats)\<close>. The \<open>int\<close> fields are integers;
  the product of the constructor is taken without its 32-bit bound, the increment of
  the step in \<open>Update\<close> with it.
\<close>

definition sequencer :: "FTYPE \<Rightarrow> int \<Rightarrow> int \<Rightarrow> sequencer" where
  "sequencer tempo beats subbeats =
     \<lparr> nBeats = beats, nSubBeats = subbeats, fTempo = tempo,
       fBeatTime = fdiv (fdiv (Fin 60.0) tempo) (Fin (of_int subbeats)),
       fAccumulate = Fin 0,
       nCurrentBeat = 0,
       nTotalBeats = subbeats * beats,
       vecChannel = [], vecNotes = [] \<rparr>"

text \<open>
  The body of \<open>for (auto v : vecChannel)\<close> in \<open>Update\<close>, over the channels still to
  visit: \<open>chans\<close> is \<open>vecChannel\<close>, \<open>c\<close> counts the channels visited, \<open>beat\<close> is
  \<open>nCurrentBeat\<close> and \<open>notes\<close> is \<open>vecNotes\<close> with the notes pushed so far.
\<close>

fun Update_for ::
  "channel list \<Rightarrow> channel list \<Rightarrow> nat \<Rightarrow> int \<Rightarrow> note list \<Rightarrow> error + note list" where
  "Update_for chans [] c beat notes = Inr notes"
| "Update_for chans (v # vs) c beat notes =
     (case wstring_at (sBeat v) beat of
        Inl e \<Rightarrow> Inl e
      | Inr x \<Rightarrow>
          if x = CHR ''X''
          then (case vector_at chans c of
                  Inl e \<Rightarrow> Inl e
                | Inr vc \<Rightarrow>
                    Update_for chans vs (c + 1) beat
                      (notes @ [note \<lparr> channel := instrument vc, active := True,
                                       id_note := 64 \<rparr>]))
          else Update_for chans vs (c + 1) beat notes)"

text \<open>
  The loop \<open>while (fAccumulate >= fBeatTime)\<close> of \<open>Update\<close>. It does not end when the
  step duration is zero or negative, nor when the accumulator is so large that
  subtracting the step duration no longer changes it in binary64; \<open>None\<close> is the run that
  never returns. \<open>nCurrentBeat++\<close> on \<open>INT_MAX\<close> is the error \<open>IntOverflow\<close>.
\<close>

partial_function (option) Update_while :: "sequencer \<Rightarrow> (error + sequencer) option" where
  "Update_while s =
     (if fge (fAccumulate s) (fBeatTime s)
      then (let s1 = s \<lparr> fAccumulate := fsub (fAccumulate s) (fBeatTime s) \<rparr>
            in if nCurrentBeat s1 = INT_MAX then Some (Inl IntOverflow)
               else
                 (let s2 = s1 \<lparr> nCurrentBeat := nCurrentBeat s1 + 1 \<rparr>;
                      s3 = (if nCurrentBeat s2 \<ge> nTotalBeats s2
                            then s2 \<lparr> nCurrentBeat := 0 \<rparr>
                            else s2)
                  in case Update_for (vecChannel s3) (vecChannel s3) 0 (nCurrentBeat s3)
                            (vecNotes s3) of
                       Inl e \<Rightarrow> Some (Inl e)
                     | Inr notes \<Rightarrow> Update_while (s3 \<lparr> vecNotes := notes \<rparr>)))
      else Some (Inr s))"

text \<open>\<open>sequencer::Update\<close> returns the sequencer it leaves and \<open>vecNotes.size()\<close>.\<close>

definition Update :: "sequencer \<Rightarrow> FTYPE \<Rightarrow> (error + sequencer \<times> int) option" where
  "Update s fElapsedTime =
     (let s1 = s \<lparr> vecNotes := [] \<rparr>;
          s2 = s1 \<lparr> fAccumulate := fadd (fAccumulate s1) fElapsedTime \<rparr>
      in case Update_while s2 of
           None \<Rightarrow> None
         | Some (Inl e) \<Rightarrow> Some (Inl e)
         | Some (Inr s3) \<Rightarrow> Some (Inr (s3, int (length (vecNotes s3)))))"

text \<open>
  \<open>sequencer::AddInstrument\<close>: the new channel has the instrument and a default
  constructed, empty \<open>sBeat\<close>.
\<close>

definition AddInstrument :: "sequencer \<Rightarrow> nat option \<Rightarrow> sequencer" where
  "AddInstrument s inst =
     s \<lparr> vecChannel := vecChannel s @ [\<lparr> instrument = inst, sBeat = [] \<rparr>] \<rparr>"

text \<open>
  The driver of the spec's overview calls \<open>Update\<close> again and again, each call on the
  sequencer the call before left. \<open>Update_calls\<close> runs a list of elapsed times and collects
  the counts returned; it stops at the first call that reads out of bounds or does not
  return.
\<close>

fun Update_calls :: "sequencer \<Rightarrow> FTYPE list \<Rightarrow> (error + sequencer \<times> int list) option" where
  "Update_calls s [] = Some (Inr (s, []))"
| "Update_calls s (t # ts) =
     (case Update s t of
        None \<Rightarrow> None
      | Some (Inl e) \<Rightarrow> Some (Inl e)
      | Some (Inr (s1, k)) \<Rightarrow>
          (case Update_calls s1 ts of
             None \<Rightarrow> None
           | Some (Inl e) \<Rightarrow> Some (Inl e)
           | Some (Inr (s2, ks)) \<Rightarrow> Some (Inr (s2, k # ks))))"

text \<open>
  What the patterns need for \<open>Update\<close> to stay inside them: every channel's pattern
  has at least \<open>nTotalBeats\<close> characters, the step index is not negative and is below
  \<open>INT_MAX\<close>, and \<open>nTotalBeats\<close> is an \<open>int\<close>.
\<close>

definition patterns_cover :: "sequencer \<Rightarrow> bool" where
  "patterns_cover s \<longleftrightarrow>
     (\<forall>v \<in> set (vecChannel s). nTotalBeats s \<le> int (length (sBeat v)))
     \<and> 0 \<le> nCurrentBeat s \<and> nCurrentBeat s < INT_MAX \<and> nTotalBeats s \<le> INT_MAX"

section \<open>Auxiliary facts about the arithmetic\<close>

text \<open>
  Results of magnitude up to \<open>2^768\<close> are far below the overflow bound.
\<close>

lemma overflow_bound_gt: "(2::real) ^ 768 < 2 ^ 1024 - 2 ^ 970"
proof -
  have "(2::real) ^ 1024 - 2 ^ 970 = 2 ^ 970 * (2 ^ 54 - 1)"
    by (simp add: algebra_simps flip: power_add)
  moreover have "(2::real) ^ 768 * 1 < 2 ^ 970 * (2 ^ 54 - 1)"
    by (intro mult_strict_mono power_strict_increasing) simp_all
  ultimately show ?thesis by simp
qed

lemma fovf_Fin: "\<bar>x\<bar> \<le> 2 ^ 768 \<Longrightarrow> fovf x = Fin x"
  using overflow_bound_gt by (auto simp: fovf_def abs_le_iff)

lemma fovf_small: "\<bar>x\<bar> \<le> 2 ^ 64 \<Longrightarrow> fovf x = Fin x"
proof -
  assume "\<bar>x\<bar> \<le> 2 ^ 64"
  moreover have "(2::real) ^ 64 \<le> 2 ^ 768" by (rule power_increasing) simp_all
  ultimately show ?thesis by (intro fovf_Fin) linarith
qed

lemma fovf_cases: "fovf x = PInf \<and> 0 < x \<or> fovf x = MInf \<and> x < 0 \<or> fovf x = Fin x"
proof -
  have "(0::real) < 2 ^ 1024 - 2 ^ 970" using overflow_bound_gt by (simp add: less_trans[of 0 "2 ^ 768"])
  then show ?thesis by (auto simp: fovf_def)
qed


lemma fsub_Fin: "fsub (Fin x) (Fin y) = fovf (x - y)"
  by (simp add: fsub_def)

lemma fgt_Fin: "fgt (Fin x) (Fin y) = (y < x)"
  by (simp add: fgt_def)

lemma fge_Fin: "fge (Fin x) (Fin y) = (y \<le> x)"
  by (simp add: fge_def)

lemma fge_fovf:
  assumes "c \<le> x" "0 \<le> c"
  shows "fge (fovf x) (Fin c)"
  using assms fovf_cases[of x] by (auto simp: fge_def)

lemma fadd_eval: "a + b = c \<Longrightarrow> \<bar>c\<bar> \<le> 2 ^ 768 \<Longrightarrow> fadd (Fin a) (Fin b) = Fin c"
  by (auto simp: fovf_Fin)

lemma fsub_eval: "a - b = c \<Longrightarrow> \<bar>c\<bar> \<le> 2 ^ 768 \<Longrightarrow> fsub (Fin a) (Fin b) = Fin c"
  by (auto simp: fsub_Fin fovf_Fin)

lemma fmul_eval: "a * b = c \<Longrightarrow> \<bar>c\<bar> \<le> 2 ^ 768 \<Longrightarrow> fmul (Fin a) (Fin b) = Fin c"
  by (auto simp: fovf_Fin)

lemma fdiv_eval:
  "b \<noteq> 0 \<Longrightarrow> a / b = c \<Longrightarrow> \<bar>c\<bar> \<le> 2 ^ 768 \<Longrightarrow> fdiv (Fin a) (Fin b) = Fin c"
  by (auto simp: fovf_Fin)

lemma small_le_big: "\<bar>x\<bar> \<le> 4 \<Longrightarrow> \<bar>x::real\<bar> \<le> 2 ^ 768"
proof -
  assume "\<bar>x\<bar> \<le> 4"
  moreover have "(2::real) ^ 2 \<le> 2 ^ 768" by (rule power_increasing) simp_all
  ultimately show ?thesis by simp
qed

lemma fovf_2_1023:
  "fovf (2 ^ 1023) = Fin (2 ^ 1023)" "fovf (2 ^ 1023 * 5) = PInf"
proof -
  have "(2::real) ^ 1024 - 2 ^ 970 = 2 ^ 970 * (2 ^ 54 - 1)"
    and "(2::real) ^ 1023 = 2 ^ 970 * 2 ^ 53"
    by (simp_all add: algebra_simps flip: power_add)
  then have "(2::real) ^ 1023 < 2 ^ 1024 - 2 ^ 970" by simp
  moreover have "- (2 ^ 1024 - 2 ^ 970) < (2::real) ^ 1023"
    using overflow_bound_gt by (simp add: less_trans[of _ 0])
  ultimately show "fovf (2 ^ 1023) = Fin (2 ^ 1023)" unfolding fovf_def by simp
  have "(2::real) ^ 1024 - 2 ^ 970 \<le> 2 ^ 1024" by simp
  also have "\<dots> \<le> 2 ^ 1023 * 5" by simp
  finally show "fovf (2 ^ 1023 * 5) = PInf" unfolding fovf_def by simp
qed






section \<open>Auxiliary facts about the envelope\<close>




lemma amplitude_overflow:
  assumes "fovf x = Fin x" "fovf (x * 5) = PInf"
  shows "amplitude envelope_adsr (Fin x) (Fin 0) (Fin 0) = NaN"
  using assms
  by (simp add: amplitude_def envelope_adsr_def fsub_Fin fgt_Fin fovf_small Let_def)








section \<open>Auxiliary facts about the scale\<close>


section \<open>Auxiliary facts about the sequencer\<close>

lemma Update_while_stop:
  "\<not> fge (fAccumulate s) (fBeatTime s) \<Longrightarrow> Update_while s = Some (Inr s)"
  by (subst Update_while.simps) simp

lemma Update_while_step:
  "fge (fAccumulate s) (fBeatTime s) \<Longrightarrow>
   Update_while s =
     (let s1 = s \<lparr> fAccumulate := fsub (fAccumulate s) (fBeatTime s) \<rparr>
      in if nCurrentBeat s1 = INT_MAX then Some (Inl IntOverflow)
         else
           (let s2 = s1 \<lparr> nCurrentBeat := nCurrentBeat s1 + 1 \<rparr>;
                s3 = (if nCurrentBeat s2 \<ge> nTotalBeats s2
                      then s2 \<lparr> nCurrentBeat := 0 \<rparr>
                      else s2)
            in case Update_for (vecChannel s3) (vecChannel s3) 0 (nCurrentBeat s3)
                      (vecNotes s3) of
                 Inl e \<Rightarrow> Some (Inl e)
               | Inr notes \<Rightarrow> Update_while (s3 \<lparr> vecNotes := notes \<rparr>)))"
  by (subst Update_while.simps) simp

lemma drop_eq_ConsD:
  assumes "drop c xs = v # vs"
  shows "c < length xs \<and> xs ! c = v \<and> drop (Suc c) xs = vs"
proof -
  have c: "c < length xs" using assms by (cases "c < length xs") simp_all
  from Cons_nth_drop_Suc[OF c] assms show ?thesis using c by simp
qed

lemma Update_for_pushes:
  assumes "Update_for chans vs c beat ns = Inr r" "drop c chans = vs"
  shows "r = ns @ map (\<lambda>v. note \<lparr> channel := instrument v, active := True, id_note := 64 \<rparr>)
                       (filter (\<lambda>v. wstring_at (sBeat v) beat = Inr CHR ''X'') vs)"
  using assms
proof (induction vs arbitrary: c ns)
  case Nil
  then show ?case by simp
next
  case (Cons v vs)
  from drop_eq_ConsD[OF Cons.prems(2)]
  have c: "c < length chans" "chans ! c = v" "drop (c + 1) chans = vs" by simp_all
  obtain x where x: "wstring_at (sBeat v) beat = Inr x"
    using Cons.prems(1) by (cases "wstring_at (sBeat v) beat") simp_all
  show ?case
  proof (cases "x = CHR ''X''")
    case True
    with Cons.prems(1) x c have "Update_for chans vs (c + 1) beat
        (ns @ [note \<lparr> channel := instrument v, active := True, id_note := 64 \<rparr>]) = Inr r"
      by (simp add: vector_at_def)
    from Cons.IH[OF this c(3)] x True show ?thesis by simp
  next
    case False
    with Cons.prems(1) x have "Update_for chans vs (c + 1) beat ns = Inr r" by simp
    from Cons.IH[OF this c(3)] x False show ?thesis by simp
  qed
qed

lemma wstring_at_in_bounds:
  assumes "0 \<le> pos" "pos \<le> int (length str)"
  shows "\<exists>x. wstring_at str pos = Inr x"
  using assms by (simp add: wstring_at_def)

lemma Update_for_in_bounds:
  assumes "\<forall>v \<in> set vs. 0 \<le> beat \<and> beat \<le> int (length (sBeat v))"
    and "c + length vs \<le> length chans"
  shows "\<exists>r. Update_for chans vs c beat ns = Inr r"
  using assms
proof (induction vs arbitrary: c ns)
  case Nil
  then show ?case by simp
next
  case (Cons v vs)
  from Cons.prems(1) obtain x where x: "wstring_at (sBeat v) beat = Inr x"
    using wstring_at_in_bounds[of beat "sBeat v"] by auto
  have c: "c < length chans" "(c + 1) + length vs \<le> length chans" using Cons.prems(2) by simp_all
  have rest: "\<forall>v \<in> set vs. 0 \<le> beat \<and> beat \<le> int (length (sBeat v))"
    using Cons.prems(1) by simp
  from Cons.IH[OF rest c(2)] x c(1) show ?case by (simp add: vector_at_def)
qed

lemma Update_while_in_bounds:
  assumes "Update_while s = Some y"
  shows "patterns_cover s \<longrightarrow> (\<exists>s'. y = Inr s' \<and> patterns_cover s')"
proof (rule Update_while.raw_induct[OF _ assms], goal_cases)
  case (1 loop s y)
  show ?case
  proof
    assume cover: "patterns_cover s"
    show "\<exists>s'. y = Inr s' \<and> patterns_cover s'"
    proof (cases "fge (fAccumulate s) (fBeatTime s)")
      case False
      with 1(2) cover show ?thesis by auto
    next
      case True
      define beat where
        "beat = (if nTotalBeats s \<le> nCurrentBeat s + 1 then 0 else nCurrentBeat s + 1)"
      define s3 where
        "s3 = s \<lparr> fAccumulate := fsub (fAccumulate s) (fBeatTime s), nCurrentBeat := beat \<rparr>"
      have no_overflow: "nCurrentBeat s \<noteq> INT_MAX"
        using cover by (simp add: patterns_cover_def)
      have beat: "0 \<le> beat" "beat = 0 \<or> beat < nTotalBeats s" "beat < INT_MAX"
        using cover by (auto simp: beat_def patterns_cover_def INT_MAX_def)
      have "\<forall>v \<in> set (vecChannel s). 0 \<le> beat \<and> beat \<le> int (length (sBeat v))"
        using beat cover by (fastforce simp: patterns_cover_def)
      from Update_for_in_bounds[OF this, of 0 "vecChannel s" "vecNotes s"]
      obtain ns where ns: "Update_for (vecChannel s) (vecChannel s) 0 beat (vecNotes s) = Inr ns"
        by auto
      have body: "loop (s3 \<lparr> vecNotes := ns \<rparr>) = Some y"
        using 1(2) True ns no_overflow
        by (simp add: Let_def s3_def beat_def split: if_splits)
      have "patterns_cover (s3 \<lparr> vecNotes := ns \<rparr>)"
        using cover beat by (simp add: patterns_cover_def s3_def)
      with 1(1)[OF body] show ?thesis by blast
    qed
  qed
qed

lemma Update_in_bounds:
  assumes "patterns_cover s"
  shows "Update s t \<noteq> Some (Inl e)"
    and "Update s t = Some (Inr (s', k)) \<Longrightarrow> patterns_cover s'"
proof -
  let ?s2 = "s \<lparr> vecNotes := [], fAccumulate := fadd (fAccumulate s) t \<rparr>"
  have c: "patterns_cover ?s2" using assms by (simp add: patterns_cover_def)
  have *: "\<exists>s'. y = Inr s' \<and> patterns_cover s'" if "Update_while ?s2 = Some y" for y
    using Update_while_in_bounds[OF that] c by blast
  show "Update s t \<noteq> Some (Inl e)"
    using * by (auto simp: Update_def Let_def split: option.splits sum.splits)
  show "patterns_cover s'" if "Update s t = Some (Inr (s', k))"
    using * that by (auto simp: Update_def Let_def split: option.splits sum.splits)
qed

lemma Update_calls_in_bounds:
  assumes "patterns_cover s"
  shows "Update_calls s ts \<noteq> Some (Inl e)"
  using assms
proof (induction ts arbitrary: s)
  case Nil
  then show ?case by simp
next
  case (Cons t ts)
  show ?case
  proof (cases "Update s t")
    case None
    then show ?thesis by simp
  next
    case (Some r)
    show ?thesis
    proof (cases r)
      case (Inl e')
      with Some Update_in_bounds(1)[OF Cons.prems, of t e'] show ?thesis by simp
    next
      case (Inr p)
      obtain s1 k where p: "p = (s1, k)" by (cases p)
      from Update_in_bounds(2)[OF Cons.prems, of t s1 k] Some Inr p
      have "patterns_cover s1" by simp
      from Cons.IH[OF this] Some Inr p show ?thesis
        by (auto split: option.splits sum.splits)
    qed
  qed
qed

lemma Update_while_notes:
  assumes "Update_while s = Some y"
  shows "\<forall>s'. y = Inr s' \<longrightarrow>
           vecChannel s' = vecChannel s
           \<and> (\<forall>n \<in> set (vecNotes s'). n \<in> set (vecNotes s)
                  \<or> (\<exists>v \<in> set (vecChannel s). \<exists>beat.
                        wstring_at (sBeat v) beat = Inr CHR ''X''
                        \<and> n = note \<lparr> channel := instrument v, active := True, id_note := 64 \<rparr>))"
proof (rule Update_while.raw_induct[OF _ assms], goal_cases)
  case (1 loop s y)
  show ?case
  proof (cases "fge (fAccumulate s) (fBeatTime s)")
    case False
    with 1(2) show ?thesis by auto
  next
    case True
    define beat where
      "beat = (if nTotalBeats s \<le> nCurrentBeat s + 1 then 0 else nCurrentBeat s + 1)"
    define s3 where
      "s3 = s \<lparr> fAccumulate := fsub (fAccumulate s) (fBeatTime s), nCurrentBeat := beat \<rparr>"
    consider (overflow) "nCurrentBeat s = INT_MAX"
      | (error) e where "nCurrentBeat s \<noteq> INT_MAX"
          "Update_for (vecChannel s) (vecChannel s) 0 beat (vecNotes s) = Inl e"
      | (pushed) ns where "nCurrentBeat s \<noteq> INT_MAX"
          "Update_for (vecChannel s) (vecChannel s) 0 beat (vecNotes s) = Inr ns"
      by (cases "Update_for (vecChannel s) (vecChannel s) 0 beat (vecNotes s)") auto
    then show ?thesis
    proof cases
      case overflow
      with 1(2) True show ?thesis by (auto simp: Let_def)
    next
      case error
      with 1(2) True show ?thesis by (auto simp: Let_def beat_def split: if_splits)
    next
      case (pushed ns)
      note Inr = pushed(2)
      have body: "loop (s3 \<lparr> vecNotes := ns \<rparr>) = Some y"
        using 1(2) True Inr pushed(1) by (simp add: Let_def s3_def beat_def split: if_splits)
      have ns: "ns = vecNotes s @
          map (\<lambda>v. note \<lparr> channel := instrument v, active := True, id_note := 64 \<rparr>)
            (filter (\<lambda>v. wstring_at (sBeat v) beat = Inr CHR ''X'') (vecChannel s))"
        using Update_for_pushes[OF Inr] by simp
      show ?thesis
      proof (intro allI impI)
        fix s' assume "y = Inr s'"
        with 1(1)[OF body] have ch: "vecChannel s' = vecChannel s"
          and old: "\<forall>n \<in> set (vecNotes s'). n \<in> set ns
                  \<or> (\<exists>v \<in> set (vecChannel s). \<exists>beat.
                        wstring_at (sBeat v) beat = Inr CHR ''X''
                        \<and> n = note \<lparr> channel := instrument v, active := True, id_note := 64 \<rparr>)"
          by (simp_all add: s3_def)
        have "n \<in> set (vecNotes s)
                  \<or> (\<exists>v \<in> set (vecChannel s). \<exists>beat.
                        wstring_at (sBeat v) beat = Inr CHR ''X''
                        \<and> n = note \<lparr> channel := instrument v, active := True, id_note := 64 \<rparr>)"
          if "n \<in> set (vecNotes s')" for n
          using old that unfolding ns by auto
        with ch show "vecChannel s' = vecChannel s
           \<and> (\<forall>n \<in> set (vecNotes s'). n \<in> set (vecNotes s)
                  \<or> (\<exists>v \<in> set (vecChannel s). \<exists>beat.
                        wstring_at (sBeat v) beat = Inr CHR ''X''
                        \<and> n = note \<lparr> channel := instrument v, active := True, id_note := 64 \<rparr>))"
          by blast
      qed
    qed
  qed
qed

section \<open>The envelope guard\<close>

text \<open>
  C9, as the code has it. The last statement of \<open>envelope_adsr::amplitude\<close> replaces
  every computed amplitude that compares at most 0.01 by exactly 0. So for every envelope
  and all arguments, the infinities and NaN included, no returned value lies in the
  interval from 0 (excluded) to 0.01 (included): the value returned is exactly 0, or it
  is greater than 0.01 (positive infinity included), or it is NaN, which compares false
  with 0.01 and passes the guard. Positive attack, decay and release times do not
  exclude NaN.
\<close>

theorem amplitude_guard:
  "(amplitude e dTime dTimeOn dTimeOff = Fin 0
      \<or> flt (Fin 0.01) (amplitude e dTime dTimeOn dTimeOff)
      \<or> amplitude e dTime dTimeOn dTimeOff = NaN)
   \<and> \<not> (flt (Fin 0) (amplitude e dTime dTimeOn dTimeOff)
          \<and> fle (amplitude e dTime dTimeOn dTimeOff) (Fin 0.01))"
proof -
  have "(if fle x (Fin 0.01) then Fin 0.0 else x) = Fin 0
      \<or> flt (Fin 0.01) (if fle x (Fin 0.01) then Fin 0.0 else x)
      \<or> (if fle x (Fin 0.01) then Fin 0.0 else x) = NaN" for x
    by (cases x) auto
  moreover have "\<not> (flt (Fin 0) (if fle x (Fin 0.01) then Fin 0.0 else x)
          \<and> fle (if fle x (Fin 0.01) then Fin 0.0 else x) (Fin 0.01))" for x
    by (cases x) auto
  ultimately show ?thesis unfolding amplitude_def Let_def by blast
qed

text \<open>
  The default envelope (attack 0.1, decay 0.1, release 0.2) at time \<open>2^1023\<close>, for a note
  with on and off time 0: the quotient of the time by the release time overflows to
  infinity, the release amplitude is 0, and infinity times 0 is NaN, which is returned:
  neither 0 nor a value above 0.01.
\<close>

theorem amplitude_guard_counterexample:
  "amplitude envelope_adsr (Fin (2 ^ 1023)) (Fin 0) (Fin 0) = NaN"
  by (rule amplitude_overflow) (rule fovf_2_1023)+

section \<open>The range of the envelope\<close>




section \<open>Zero-length segments of the envelope\<close>




section \<open>Termination of envelope-driven instruments\<close>

text \<open>
  C3, as the code has it. For Bell, 8-bit Bell and Harmonica, \<open>sound(time, note)\<close>
  leaves \<open>noteFinished\<close> true exactly when it was passed in true or the envelope
  amplitude is at most 0; the flag is never cleared. That is all the code decides: it
  does not ask whether the note has been released.
\<close>

theorem envelope_driven_noteFinished:
  "snd (instrument_bell_sound this dTime n bNoteFinished dRand)
     = (bNoteFinished \<or> fle (amplitude (env this) dTime (on n) (off n)) (Fin 0))
   \<and> snd (instrument_bell8_sound this dTime n bNoteFinished dRand)
     = (bNoteFinished \<or> fle (amplitude (env this) dTime (on n) (off n)) (Fin 0))
   \<and> snd (instrument_harmonica_sound this dTime n bNoteFinished dRand)
     = (bNoteFinished \<or> fle (amplitude (env this) dTime (on n) (off n)) (Fin 0))"
  by (simp add: instrument_bell_sound_def instrument_bell8_sound_def
        instrument_harmonica_sound_def synth_env_def Let_def)

text \<open>
  The rest of the claim fails. A Bell note with \<open>onTime = 0\<close> and \<open>offTime = 0\<close> is not
  sounding for the code, whose test is \<open>onTime > offTime\<close>: at time 0.005 it is in the
  release branch with amplitude 0 and is marked finished. A sounding, unreleased Bell
  note (\<open>onTime = 1\<close>, \<open>offTime = 0\<close>) is marked finished at the instant it starts, where
  the attack ramp is below the guard of 0.01, and again at time 3, where the decay has
  reached Bell's sustain level 0.
\<close>

theorem envelope_driven_noteFinished_counterexample:
  "snd (instrument_bell_sound instrument_bell (Fin 0.005)
          (note \<lparr> on := Fin 0, off := Fin 0 \<rparr>) False (Fin 0)) = True
   \<and> snd (instrument_bell_sound instrument_bell (Fin 1)
          (note \<lparr> on := Fin 1, off := Fin 0 \<rparr>) False (Fin 0)) = True
   \<and> snd (instrument_bell_sound instrument_bell (Fin 3)
          (note \<lparr> on := Fin 1, off := Fin 0 \<rparr>) False (Fin 0)) = True"
  by (simp add: instrument_bell_sound_def synth_env_def Let_def note_def
        instrument_bell_def envelope_adsr_def amplitude_def fsub_Fin fgt_Fin fovf_small)

section \<open>Termination of timeout-driven instruments\<close>

text \<open>
  C7. For Drum Kick (maximal life time 1.5), Drum Snare (1.0) and Drum Hi-Hat (1.0) as
  constructed, \<open>sound(time, note)\<close> sets \<open>noteFinished\<close> to true whenever
  \<open>time - note.on\<close> is at least the maximal life time, whatever the off time of the note
  (so whatever the envelope does), the flag passed in and the draw of the noise
  oscillator are; Drum Kick with \<open>onTime = 0\<close> at time 1.6 is finished.
\<close>

theorem timeout_driven_noteFinished:
  assumes "on n = Fin tOn"
  shows "(1.5 \<le> t - tOn \<longrightarrow>
            snd (instrument_drumkick_sound instrument_drumkick (Fin t) n bNoteFinished dRand))
       \<and> (1.0 \<le> t - tOn \<longrightarrow>
            snd (instrument_drumsnare_sound instrument_drumsnare (Fin t) n bNoteFinished dRand))
       \<and> (1.0 \<le> t - tOn \<longrightarrow>
            snd (instrument_drumhihat_sound instrument_drumhihat (Fin t) n bNoteFinished dRand))"
proof -
  have "fge (fsub (Fin t) (on n)) (Fin c)" if "c \<le> t - tOn" "0 \<le> c" for c
    using that assms by (simp add: fsub_Fin fge_fovf)
  from this[of "1.5"] this[of "1.0"] show ?thesis
    by (simp add: instrument_drumkick_sound_def instrument_drumsnare_sound_def
          instrument_drumhihat_sound_def instrument_drumkick_def instrument_drumsnare_def
          instrument_drumhihat_def Let_def fgt_Fin)
qed

text \<open>The Drum Kick scenario of the spec, and the two other drums at the same time.\<close>

theorem timeout_driven_noteFinished_witness:
  "snd (instrument_drumkick_sound instrument_drumkick (Fin 1.6) (note \<lparr> on := Fin 0 \<rparr>)
          False (Fin 0))
   \<and> snd (instrument_drumsnare_sound instrument_drumsnare (Fin 1.6) (note \<lparr> on := Fin 0 \<rparr>)
          False (Fin 0))
   \<and> snd (instrument_drumhihat_sound instrument_drumhihat (Fin 1.6) (note \<lparr> on := Fin 0 \<rparr>)
          False (Fin 0))"
proof -
  have h: "on (note \<lparr> on := Fin 0 \<rparr>) = Fin 0" by simp
  from timeout_driven_noteFinished[OF h, of "1.6" False "Fin 0"] show ?thesis by simp
qed

section \<open>The digital saw\<close>

text \<open>
  C8, as the code has it. The value of the oscillator of kind digital saw does not
  depend on the vibrato parameters \<open>dLFOHertz\<close> and \<open>dLFOAmplitude\<close>, nor on the shape
  parameter or the noise draw: for the same time and frequency it is the same for any
  two settings of them, since the branch does not read \<open>dFreq\<close>, the only place where they
  enter. The value is \<open>(2.0 / PI) * (dHertz * PI * fmod(dTime, 1.0 / dHertz) - PI / 2.0)\<close>
  as \<open>double\<close> arithmetic computes it, with the remainder of the C library, which has the
  sign of the time; it is not the ramp over the remainder of the time modulo
  \<open>1/f\<close>.
\<close>

theorem osc_saw_dig_ignores_vibrato:
  "osc dTime dHertz OSC_SAW_DIG dLFOHertz dLFOAmplitude dCustom dRand
     = osc dTime dHertz OSC_SAW_DIG dLFOHertz' dLFOAmplitude' dCustom' dRand'"
  by (simp add: osc_def Let_def)

text \<open>
  At time \<open>-0.3125\<close> and frequency 4, numbers with which every intermediate result is
  exact in binary64 up to the rounding of \<open>PI\<close>, \<open>fmod\<close> returns \<open>-0.0625\<close> and the
  oscillator \<open>-1.5\<close>, below the range of the wave; the remainder of the time modulo the
  period 0.25 is 0.1875, and the ramp of the spec over it, \<open>saw_dig_spec\<close>, is 0.5.
\<close>

theorem osc_saw_dig_ignores_vibrato_counterexample:
  "osc (Fin (- 0.3125)) (Fin 4) OSC_SAW_DIG (Fin 0) (Fin 0) 50 (Fin 0) = Fin (- 1.5)
   \<and> saw_dig_spec (- 0.3125) 4 = 0.5"
proof -
  note pi_bounds = pi_ge_two pi_less_4
  have s1: "fdiv (Fin 2.0) (Fin PI) = Fin (2 / pi)"
    by (rule fdiv_eval[OF _ _ small_le_big]) (use pi_bounds in \<open>simp_all add: PI_def field_simps\<close>)
  have s2: "fmul (Fin 4) (Fin PI) = Fin (4 * pi)"
    by (rule fmul_eval) (use pi_bounds in \<open>simp_all add: PI_def\<close>)
  have s3: "fdiv (Fin 1.0) (Fin 4) = Fin (1 / 4)"
    by (rule fdiv_eval) simp_all
  have s4: "ffmod (Fin (- 0.3125)) (Fin (1 / 4)) = Fin (- (1 / 16))"
    by (simp add: fmod_real_def)
  have s5: "fmul (Fin (4 * pi)) (Fin (- (1 / 16))) = Fin (- (pi / 4))"
    by (rule fmul_eval[OF _ small_le_big]) (use pi_bounds in simp_all)
  have s6: "fdiv (Fin PI) (Fin 2.0) = Fin (pi / 2)"
    by (rule fdiv_eval[OF _ _ small_le_big]) (use pi_bounds in \<open>simp_all add: PI_def\<close>)
  have s7: "fsub (Fin (- (pi / 4))) (Fin (pi / 2)) = Fin (- (3 * pi / 4))"
    by (rule fsub_eval[OF _ small_le_big]) (use pi_bounds in simp_all)
  have s8: "fmul (Fin (2 / pi)) (Fin (- (3 * pi / 4))) = Fin (- 1.5)"
    by (rule fmul_eval[OF _ small_le_big]) simp_all
  have "osc (Fin (- 0.3125)) (Fin 4) OSC_SAW_DIG (Fin 0) (Fin 0) 50 (Fin 0) = Fin (- 1.5)"
    by (simp only: osc_def Let_def OSC_TYPE.case s1 s2 s3 s4 s5 s6 s7 s8)
  moreover have "saw_dig_spec (- 0.3125) 4 = 0.5"
    by (simp add: saw_dig_spec_def field_simps)
  ultimately show ?thesis by (rule conjI)
qed

section \<open>The pitch mapper\<close>


section \<open>The sequencer scenario\<close>

text \<open>
  C1, as the code has it. A sequencer constructed with tempo 120, 4 beats and 4 sub-beats
  has step duration 0.125 s. With one registered channel whose pattern is
  \<open>X...............\<close>, sixteen calls \<open>Update(0.125)\<close> from the initial state return 0
  notes fifteen times and 1 note the sixteenth time: each call advances the step before
  it reads the pattern, so the first call reads position 1, and position 0 is read, and
  triggers for the first time, when the sixteenth call wraps the step back to 0. The
  note triggered is the one left in \<open>vecNotes\<close>.
\<close>

theorem Update_scenario:
  "fBeatTime (sequencer (Fin 120) 4 4) = Fin 0.125
   \<and> Update_calls ((AddInstrument (sequencer (Fin 120) 4 4) inst)
         \<lparr> vecChannel := [\<lparr> instrument = inst, sBeat = ''X...............'' \<rparr>] \<rparr>)
       (replicate 16 (Fin 0.125))
     = Some (Inr (\<lparr> nBeats = 4, nSubBeats = 4, fTempo = Fin 120, fBeatTime = Fin 0.125,
                     fAccumulate = Fin 0, nCurrentBeat = 0, nTotalBeats = 16,
                     vecChannel = [\<lparr> instrument = inst, sBeat = ''X...............'' \<rparr>],
                     vecNotes = [\<lparr> id_note = 64, on = Fin 0, off = Fin 0, active = True,
                                   channel = inst \<rparr>] \<rparr>,
                  replicate 15 0 @ [1]))"
  by (simp add: numeral_eq_Suc Update_def AddInstrument_def sequencer_def Update_while_step
        Update_while_stop fge_Fin fsub_Fin fovf_small INT_MAX_def wstring_at_def vector_at_def
        note_def Let_def)

text \<open>The first call \<open>Update(0.125)\<close> returns 0, not 1, and leaves the step at 1.\<close>

theorem Update_scenario_counterexample:
  "Update ((AddInstrument (sequencer (Fin 120) 4 4) (Some 0))
         \<lparr> vecChannel := [\<lparr> instrument = Some 0, sBeat = ''X...............'' \<rparr>] \<rparr>)
       (Fin 0.125)
     = Some (Inr (\<lparr> nBeats = 4, nSubBeats = 4, fTempo = Fin 120, fBeatTime = Fin 0.125,
                     fAccumulate = Fin 0, nCurrentBeat = 1, nTotalBeats = 16,
                     vecChannel = [\<lparr> instrument = Some 0, sBeat = ''X...............'' \<rparr>],
                     vecNotes = [] \<rparr>,
                  0))"
  by (simp add: Update_def AddInstrument_def sequencer_def Update_while_step
        Update_while_stop fge_Fin fsub_Fin fovf_small INT_MAX_def wstring_at_def vector_at_def
        note_def Let_def)

section \<open>Pattern reads of the sequencer\<close>

text \<open>
  C4, as the code has it. \<open>AddInstrument\<close> checks nothing: it appends a channel with the
  instrument and an empty pattern, and no other operation rejects, pads or truncates a
  pattern. \<open>Update\<close> increments the step, an \<open>int\<close>, and reads the pattern at it without
  a bound check. In every sequence of \<open>Update\<close> calls no read is out of bounds and no
  increment overflows provided every channel's pattern has at least \<open>nTotalBeats\<close>
  characters, the step index starts at 0 or above and below \<open>INT_MAX\<close>, and
  \<open>nTotalBeats\<close> is at most \<open>INT_MAX\<close>. That the calls return is not stated: the loop
  of \<open>Update\<close> ends only if subtracting the step duration brings the accumulator below
  it.
\<close>

theorem Update_reads_in_bounds:
  assumes "\<forall>v \<in> set (vecChannel s). nTotalBeats s \<le> int (length (sBeat v))"
    and "0 \<le> nCurrentBeat s" and "nCurrentBeat s < INT_MAX" and "nTotalBeats s \<le> INT_MAX"
  shows "Update_calls s ts \<noteq> Some (Inl e)
       \<and> vecChannel (AddInstrument s inst) = vecChannel s @ [\<lparr> instrument = inst, sBeat = [] \<rparr>]"
proof -
  have c: "patterns_cover s" using assms by (simp add: patterns_cover_def)
  show ?thesis
    using Update_calls_in_bounds[OF c] by (auto simp: AddInstrument_def)
qed

text \<open>
  The sequencer of the scenario above, run for 0.25 s and then for 1.875 s: two steps,
  then fifteen, the step wrapping to 0, where the pattern triggers.
\<close>

theorem Update_reads_in_bounds_witness:
  "Update_calls ((sequencer (Fin 120) 4 4)
        \<lparr> vecChannel := [\<lparr> instrument = Some 0, sBeat = ''X...............'' \<rparr>] \<rparr>)
        [Fin 0.25, Fin 1.875]
     = Some (Inr (\<lparr> nBeats = 4, nSubBeats = 4, fTempo = Fin 120, fBeatTime = Fin 0.125,
                     fAccumulate = Fin 0, nCurrentBeat = 1, nTotalBeats = 16,
                     vecChannel = [\<lparr> instrument = Some 0, sBeat = ''X...............'' \<rparr>],
                     vecNotes = [\<lparr> id_note = 64, on = Fin 0, off = Fin 0, active = True,
                                   channel = Some 0 \<rparr>] \<rparr>,
                  [0, 1]))
   \<and> Update_calls ((sequencer (Fin 120) 4 4)
        \<lparr> vecChannel := [\<lparr> instrument = Some 0, sBeat = ''X...............'' \<rparr>] \<rparr>)
        [Fin 0.25, Fin 1.875] \<noteq> Some (Inl OutOfBounds)
   \<and> vecChannel (AddInstrument (sequencer (Fin 120) 4 4) (Some 0))
        = [\<lparr> instrument = Some 0, sBeat = [] \<rparr>]"
proof -
  let ?s = "(sequencer (Fin 120) 4 4)
        \<lparr> vecChannel := [\<lparr> instrument = Some 0, sBeat = ''X...............'' \<rparr>] \<rparr>"
  have h: "\<forall>v \<in> set (vecChannel ?s). nTotalBeats ?s \<le> int (length (sBeat v))"
    "0 \<le> nCurrentBeat ?s" "nCurrentBeat ?s < INT_MAX" "nTotalBeats ?s \<le> INT_MAX"
    by (simp_all add: sequencer_def INT_MAX_def)
  have u: "Update_calls ?s [Fin 0.25, Fin 1.875]
     = Some (Inr (\<lparr> nBeats = 4, nSubBeats = 4, fTempo = Fin 120, fBeatTime = Fin 0.125,
                     fAccumulate = Fin 0, nCurrentBeat = 1, nTotalBeats = 16,
                     vecChannel = [\<lparr> instrument = Some 0, sBeat = ''X...............'' \<rparr>],
                     vecNotes = [\<lparr> id_note = 64, on = Fin 0, off = Fin 0, active = True,
                                   channel = Some 0 \<rparr>] \<rparr>,
                  [0, 1]))"
    by (simp add: Update_def sequencer_def Update_while_step
        Update_while_stop fge_Fin fsub_Fin wstring_at_def vector_at_def note_def Let_def
        fovf_small INT_MAX_def)
  have a: "vecChannel (AddInstrument (sequencer (Fin 120) 4 4) (Some 0))
        = [\<lparr> instrument = Some 0, sBeat = [] \<rparr>]"
    by (simp add: AddInstrument_def sequencer_def)
  from Update_reads_in_bounds[OF h, of "[Fin 0.25, Fin 1.875]" OutOfBounds] u a
  show ?thesis by blast
qed

text \<open>
  A channel as \<open>AddInstrument\<close> registers it has the empty pattern, and the first
  \<open>Update\<close> reads it at index 1. A pattern of four characters on a grid of sixteen
  steps is read at index 5 by the fifth call.
\<close>

theorem Update_reads_in_bounds_counterexample:
  "Update (AddInstrument (sequencer (Fin 120) 4 4) (Some 0)) (Fin 0.125) = Some (Inl OutOfBounds)
   \<and> Update_calls ((AddInstrument (sequencer (Fin 120) 4 4) (Some 0))
         \<lparr> vecChannel := [\<lparr> instrument = Some 0, sBeat = ''X...'' \<rparr>] \<rparr>)
       (replicate 5 (Fin 0.125)) = Some (Inl OutOfBounds)"
  by (simp add: numeral_eq_Suc Update_def AddInstrument_def sequencer_def Update_while_step
        Update_while_stop fge_Fin fsub_Fin wstring_at_def vector_at_def note_def Let_def
        fovf_small INT_MAX_def)

section \<open>The notes the sequencer emits\<close>

text \<open>
  C10. Every note descriptor in the list that \<open>Update\<close> leaves has id 64, is active, has
  on and off time 0.0, and refers to the instrument of a channel whose pattern has the
  trigger marker; the count returned is the length of the list.
\<close>

theorem Update_note_descriptors:
  assumes "Update s fElapsedTime = Some (Inr (s', k))" and "n \<in> set (vecNotes s')"
  shows "id_note n = 64 \<and> active n \<and> on n = Fin 0.0 \<and> off n = Fin 0.0
       \<and> (\<exists>v \<in> set (vecChannel s). channel n = instrument v
             \<and> (\<exists>beat. wstring_at (sBeat v) beat = Inr CHR ''X''))
       \<and> k = int (length (vecNotes s'))"
proof -
  let ?s2 = "s \<lparr> vecNotes := [], fAccumulate := fadd (fAccumulate s) fElapsedTime \<rparr>"
  from assms(1) have w: "Update_while ?s2 = Some (Inr s')" and k: "k = int (length (vecNotes s'))"
    by (auto simp: Update_def Let_def split: option.splits sum.splits)
  from Update_while_notes[OF w] assms(2)
  obtain v beat where "v \<in> set (vecChannel s)" "wstring_at (sBeat v) beat = Inr CHR ''X''"
    "n = note \<lparr> channel := instrument v, active := True, id_note := 64 \<rparr>"
    by auto
  with k show ?thesis by (auto simp: note_def)
qed

text \<open>A channel with the marker at step 1 triggers in the first call.\<close>

theorem Update_note_descriptors_witness:
  "Update ((sequencer (Fin 120) 4 4)
         \<lparr> vecChannel := [\<lparr> instrument = Some 7, sBeat = ''.X..............'' \<rparr>] \<rparr>)
       (Fin 0.125)
     = Some (Inr (\<lparr> nBeats = 4, nSubBeats = 4, fTempo = Fin 120, fBeatTime = Fin 0.125,
                     fAccumulate = Fin 0, nCurrentBeat = 1, nTotalBeats = 16,
                     vecChannel = [\<lparr> instrument = Some 7, sBeat = ''.X..............'' \<rparr>],
                     vecNotes = [\<lparr> id_note = 64, on = Fin 0, off = Fin 0, active = True,
                                   channel = Some 7 \<rparr>] \<rparr>,
                  1))
   \<and> id_note \<lparr> id_note = 64, on = Fin 0, off = Fin 0, active = True, channel = Some 7 \<rparr> = 64
   \<and> (\<exists>v \<in> set [\<lparr> instrument = Some 7, sBeat = ''.X..............'' \<rparr>].
         channel \<lparr> id_note = 64, on = Fin 0, off = Fin 0, active = True, channel = Some 7 \<rparr>
           = instrument v
         \<and> (\<exists>beat. wstring_at (sBeat v) beat = Inr CHR ''X''))"
proof -
  let ?s = "(sequencer (Fin 120) 4 4)
         \<lparr> vecChannel := [\<lparr> instrument = Some 7, sBeat = ''.X..............'' \<rparr>] \<rparr>"
  let ?n = "\<lparr> id_note = 64, on = Fin 0, off = Fin 0, active = True, channel = Some 7 \<rparr>"
  let ?s' = "\<lparr> nBeats = 4, nSubBeats = 4, fTempo = Fin 120, fBeatTime = Fin 0.125,
                     fAccumulate = Fin 0, nCurrentBeat = 1, nTotalBeats = 16,
                     vecChannel = [\<lparr> instrument = Some 7, sBeat = ''.X..............'' \<rparr>],
                     vecNotes = [?n] \<rparr>"
  have u: "Update ?s (Fin 0.125) = Some (Inr (?s', 1))"
    by (simp add: Update_def sequencer_def Update_while_step
        Update_while_stop fge_Fin fsub_Fin fovf_small INT_MAX_def wstring_at_def vector_at_def
        note_def Let_def)
  have m: "?n \<in> set (vecNotes ?s')" by simp
  from Update_note_descriptors[OF u m] u show ?thesis by (simp add: sequencer_def)
qed

end
